theory Spec2Isabelle
  imports Complex_Main "HOL-Library.Multiset"
begin

section \<open>Data model\<close>

text \<open>
  The \<^verbatim>\<open>Target\<close> interface of the page and of the map component. JavaScript numbers
  that carry measurements (coordinates, score, usage) are modelled as reals; the data
  files hold JSON numbers, so no NaN or infinity occurs in them. The field \<^verbatim>\<open>id\<close> is
  written \<open>id'\<close>, since \<open>id\<close> is the identity function of HOL.
\<close>

record Target =
  id' :: string
  lat :: real
  lng :: real
  address :: string
  score :: real
  lmi :: bool
  kwh :: real
  owner :: bool
  sqft :: real
  year :: real

text \<open>
  A parsed JSON document, as \<^verbatim>\<open>Response.json()\<close> produces it. The zone collection of
  the page has the type \<^verbatim>\<open>any[]\<close>, so a zone is a JSON value. A number of a document
  is finite or, when its literal is beyond the range of a double, an infinity; the
  conversion of a string to a number can also give NaN.
\<close>

datatype js_number = NaN | Finite real | PlusInfinity | MinusInfinity

datatype json =
    JNull
  | JBool bool
  | JNum js_number
  | JStr string
  | JArr "json list"
  | JObj "(string \<times> json) list"

section \<open>The page component (Home)\<close>

datatype view = MapView | SheetView

record Stats =
  doors :: nat
  deals :: nat
  callbacks :: nat

text \<open>
  The \<^verbatim>\<open>useState\<close> cells of \<^verbatim>\<open>Home\<close>. The three counters start at 0 and only ever
  grow by 1, so they are natural numbers (a JavaScript number is exact on them far
  beyond what a session can reach).
\<close>

record Home_state =
  zones :: "json list"
  targets :: "Target list"
  loading :: bool
  showLMI :: bool
  showTargets :: bool
  showRoute :: bool
  routeTargets :: "Target list"
  currentView :: view
  stats :: Stats

definition Home_init :: Home_state where
  "Home_init =
     \<lparr>zones = [], targets = [], loading = True, showLMI = True, showTargets = True,
      showRoute = False, routeTargets = [], currentView = MapView,
      stats = \<lparr>doors = 0, deals = 0, callbacks = 0\<rparr>\<rparr>"

text \<open>
  \<^verbatim>\<open>handleTargetClick\<close>: \<^verbatim>\<open>Array.prototype.find\<close> returns the first entry with the
  clicked identifier or \<^verbatim>\<open>undefined\<close>; an entry is an object and so truthy. When one
  is found every entry with that identifier is filtered out, otherwise the target is
  appended.
\<close>

definition handleTargetClick :: "Target \<Rightarrow> Home_state \<Rightarrow> Home_state" where
  "handleTargetClick target s =
     (if find (\<lambda>t. id' t = id' target) (routeTargets s) \<noteq> None
      then s\<lparr>routeTargets := filter (\<lambda>t. id' t \<noteq> id' target) (routeTargets s)\<rparr>
      else s\<lparr>routeTargets := routeTargets s @ [target]\<rparr>)"

definition handleClearRoute :: "Home_state \<Rightarrow> Home_state" where
  "handleClearRoute s = s\<lparr>routeTargets := [], showRoute := False\<rparr>"

text \<open>The result codes of \<^verbatim>\<open>logResult\<close>: \<^verbatim>\<open>'deal' | 'callback' | 'ni' | 'nh'\<close>.\<close>

datatype result = deal | callback | ni | nh

definition logResult :: "string \<Rightarrow> result \<Rightarrow> Home_state \<Rightarrow> Home_state" where
  "logResult targetId r s =
     s\<lparr>stats :=
         \<lparr>doors = doors (stats s) + 1,
          deals = (if r = deal then deals (stats s) + 1 else deals (stats s)),
          callbacks = (if r = callback then callbacks (stats s) + 1 else callbacks (stats s))\<rparr>\<rparr>"

text \<open>
  Everything a user can do to the page state: click a target marker, the handlers
  handed to the control panel, its three layer check boxes, the floating
  \<^verbatim>\<open>Start Route\<close> button (rendered only while the route list is non-empty), and a
  logged door result. Printing calls \<^verbatim>\<open>window.print()\<close> and leaves the state alone.
\<close>

datatype event =
    TargetClick Target
  | ClearRoute
  | PrintStreetSheet
  | StartRoute
  | SetShowLMI bool
  | SetShowTargets bool
  | SetShowRoute bool
  | LogResult string result

fun Home_step :: "event \<Rightarrow> Home_state \<Rightarrow> Home_state" where
  "Home_step (TargetClick t) s = handleTargetClick t s"
| "Home_step ClearRoute s = handleClearRoute s"
| "Home_step PrintStreetSheet s = s"
| "Home_step StartRoute s = (if length (routeTargets s) > 0 then s\<lparr>showRoute := True\<rparr> else s)"
| "Home_step (SetShowLMI v) s = s\<lparr>showLMI := v\<rparr>"
| "Home_step (SetShowTargets v) s = s\<lparr>showTargets := v\<rparr>"
| "Home_step (SetShowRoute v) s = s\<lparr>showRoute := v\<rparr>"
| "Home_step (LogResult targetId r) s = logResult targetId r s"

definition Home_run :: "event list \<Rightarrow> Home_state" where
  "Home_run evs = fold Home_step evs Home_init"


subsection \<open>The printable street sheet\<close>

text \<open>
  One \<^verbatim>\<open><tr>\<close> of the sheet's body: the sequence number, the address, the score,
  the LMI mark (a check mark or nothing), the owner mark (a check mark or \<^verbatim>\<open>R\<close>)
  and the monthly kWh. The two last cells are blank boxes for handwriting.
\<close>

datatype mark = Check | Blank | Renter

record sheet_row =
  row_number :: nat
  row_address :: string
  row_score :: real
  row_lmi :: mark
  row_owner :: mark
  row_kwh :: real

definition sheet_tr :: "nat \<times> Target \<Rightarrow> sheet_row" where
  "sheet_tr p =
     (case p of (idx, target) \<Rightarrow>
        \<lparr>row_number = idx + 1,
         row_address = address target,
         row_score = score target,
         row_lmi = (if lmi target then Check else Blank),
         row_owner = (if owner target then Check else Renter),
         row_kwh = kwh target\<rparr>)"

text \<open>
  The \<^verbatim>\<open><tbody>\<close>:
  \<^verbatim>\<open>(routeTargets.length > 0 ? routeTargets : targets).map((target, idx) => ...)\<close>.
\<close>

definition street_sheet :: "Home_state \<Rightarrow> sheet_row list" where
  "street_sheet s =
     map sheet_tr
       (enumerate 0 (if length (routeTargets s) > 0 then routeTargets s else targets s))"

section \<open>The map component\<close>

subsection \<open>Array.prototype.sort\<close>

text \<open>
  \<^verbatim>\<open>sort\<close> with a comparison function is stable: \<open>x\<close> is placed before \<open>y\<close> when
  the comparison is negative, after it when positive, and two entries that compare
  equal keep the order they had in the array. With a consistent comparison the
  result is the same for every stable algorithm; the one written here inserts the
  entries from the back of the array, each before the first entry it does not
  follow.
\<close>

fun insert_by :: "('a \<Rightarrow> 'a \<Rightarrow> real) \<Rightarrow> 'a \<Rightarrow> 'a list \<Rightarrow> 'a list" where
  "insert_by cmp x [] = [x]"
| "insert_by cmp x (y # ys) =
     (if cmp x y \<le> 0 then x # y # ys else y # insert_by cmp x ys)"

definition js_sort :: "('a \<Rightarrow> 'a \<Rightarrow> real) \<Rightarrow> 'a list \<Rightarrow> 'a list" where
  "js_sort cmp xs = foldr (insert_by cmp) xs []"

text \<open>\<^verbatim>\<open>const sorted = [...targets].sort((a, b) => b.score - a.score)\<close>\<close>

definition sorted_by_score :: "Target list \<Rightarrow> Target list" where
  "sorted_by_score targets_p = js_sort (\<lambda>a b. score b - score a) targets_p"

subsection \<open>The Leaflet map\<close>

text \<open>
  What the route effect does to the map: a map holds the layers added to it, in the
  order of their addition. Leaflet stamps every layer with a fresh number and
  \<^verbatim>\<open>removeLayer\<close> takes away the layer with the stamp of its argument. The effect adds
  a polyline and, for every stop, a marker whose icon (class \<^verbatim>\<open>route-number\<close>) shows
  the position of the stop in the order; the layers of the other effects (tiles,
  zones, the marker group, the location marker) are \<open>OtherLayer\<close>.
\<close>

type_synonym latlng = "real \<times> real"

datatype shape =
    Polyline "latlng list"
  | RouteNumber latlng nat
  | OtherLayer string

type_synonym layer = "nat \<times> shape"

record leaflet_map =
  layers :: "layer list"
  next_stamp :: nat

definition addTo :: "shape \<Rightarrow> leaflet_map \<Rightarrow> layer \<times> leaflet_map" where
  "addTo sh m =
     ((next_stamp m, sh),
      m\<lparr>layers := layers m @ [(next_stamp m, sh)], next_stamp := next_stamp m + 1\<rparr>)"

definition removeLayer :: "leaflet_map \<Rightarrow> layer \<Rightarrow> leaflet_map" where
  "removeLayer m l = m\<lparr>layers := filter (\<lambda>l'. fst l' \<noteq> fst l) (layers m)\<rparr>"

text \<open>The two \<^verbatim>\<open>useRef\<close> cells the route effect reads and writes.\<close>

record MapComponent_refs =
  mapRef :: "leaflet_map option"
  routeLayerRef :: "layer option"

text \<open>
  The body of \<^verbatim>\<open>sorted.forEach((target, idx) => L.marker(...).addTo(mapRef.current!))\<close>:
  the marker is added to the map and kept in no ref.
\<close>

definition add_route_number :: "nat \<times> Target \<Rightarrow> leaflet_map \<Rightarrow> leaflet_map" where
  "add_route_number p m =
     (case p of (idx, target) \<Rightarrow>
        snd (addTo (RouteNumber (lat target, lng target) (idx + 1)) m))"

text \<open>
  The effect \<^verbatim>\<open>// Update route line\<close>, run after a render in which \<^verbatim>\<open>targets\<close> or
  \<^verbatim>\<open>showRoute\<close> changed: it returns at once while there is no map; it removes the
  layer held in \<^verbatim>\<open>routeLayerRef\<close> and clears the ref; and when \<^verbatim>\<open>showRoute\<close> holds and
  there is more than one target it draws the line through the sorted targets, keeps
  it in the ref, and adds the numbered markers.
\<close>

definition route_effect :: "bool \<Rightarrow> Target list \<Rightarrow> MapComponent_refs \<Rightarrow> MapComponent_refs" where
  "route_effect showRoute_p targets_p r =
     (case mapRef r of
        None \<Rightarrow> r
      | Some m \<Rightarrow>
          let m1 = (case routeLayerRef r of Some l \<Rightarrow> removeLayer m l | None \<Rightarrow> m)
          in if showRoute_p \<and> length targets_p > 1
             then
               let sorted_t = sorted_by_score targets_p;
                   coords = map (\<lambda>t. (lat t, lng t)) sorted_t;
                   drawn = addTo (Polyline coords) m1;
                   m3 = fold add_route_number (enumerate 0 sorted_t) (snd drawn)
               in \<lparr>mapRef = Some m3, routeLayerRef = Some (fst drawn)\<rparr>
             else \<lparr>mapRef = Some m1, routeLayerRef = None\<rparr>)"

text \<open>
  \<^verbatim>\<open>Home\<close> renders \<^verbatim>\<open><MapComponent targets={targets} showRoute={showRoute} ... />\<close>:
  the component receives the whole target collection and never the route list.
\<close>

definition Home_route_effect :: "Home_state \<Rightarrow> MapComponent_refs \<Rightarrow> MapComponent_refs" where
  "Home_route_effect s r = route_effect (showRoute s) (targets s) r"

text \<open>
  What is on the map: the line held in the ref, the layers, and among them those of
  the route (lines and numbered markers).
\<close>

definition route_line :: "MapComponent_refs \<Rightarrow> latlng list option" where
  "route_line r =
     (case routeLayerRef r of
        Some (i, Polyline coords) \<Rightarrow> Some coords
      | _ \<Rightarrow> None)"

fun is_route_artifact :: "layer \<Rightarrow> bool" where
  "is_route_artifact (i, Polyline coords) = True"
| "is_route_artifact (i, RouteNumber p n) = True"
| "is_route_artifact (i, OtherLayer name) = False"

definition layers_on :: "MapComponent_refs \<Rightarrow> layer list" where
  "layers_on r = (case mapRef r of None \<Rightarrow> [] | Some m \<Rightarrow> layers m)"

definition route_artifacts :: "MapComponent_refs \<Rightarrow> layer list" where
  "route_artifacts r = filter is_route_artifact (layers_on r)"

text \<open>What a run of an effect has drawn: the layers on the map after it that were not there before.\<close>

definition drawn_by :: "MapComponent_refs \<Rightarrow> MapComponent_refs \<Rightarrow> layer list" where
  "drawn_by r r' = filter (\<lambda>l. l \<notin> set (layers_on r)) (layers_on r')"


section \<open>The control panel\<close>

datatype tab = LayersTab | RouteTab | ScriptsTab

text \<open>
  What a control of the panel calls when the user operates it: the panel's own state
  setters, the setters and handlers it receives as props.
\<close>

datatype handler =
    setActiveTab tab
  | setExpandedScript "string option"
  | setShowLMI bool
  | setShowTargets bool
  | setShowRoute bool
  | onPrintStreetSheet
  | onClearRoute

record control =
  caption :: string
  disabled :: bool
  handler_of :: handler

text \<open>The keys of \<^verbatim>\<open>SCRIPTS.objections\<close>, in the order of the object literal.\<close>

definition objections :: "string list" where
  "objections =
     [''not interested'', ''renting'', ''already have solar'', ''too expensive'',
      ''need to think'', ''bad credit'']"

text \<open>
  The controls the panel renders, top to bottom: the three tab buttons, then the
  content of the active tab. A check box calls its setter with the value it would
  take, so with the negation of the one it shows. The two buttons of the route tab
  carry \<^verbatim>\<open>disabled={routeTargets.length === 0}\<close>.
\<close>

definition ControlPanel ::
  "bool \<Rightarrow> bool \<Rightarrow> bool \<Rightarrow> Target list \<Rightarrow> tab \<Rightarrow> string option \<Rightarrow> control list" where
  "ControlPanel showLMI_p showTargets_p showRoute_p routeTargets_p activeTab expandedScript =
     [\<lparr>caption = ''Layers'', disabled = False, handler_of = setActiveTab LayersTab\<rparr>,
      \<lparr>caption = ''Route'', disabled = False, handler_of = setActiveTab RouteTab\<rparr>,
      \<lparr>caption = ''Scripts'', disabled = False, handler_of = setActiveTab ScriptsTab\<rparr>]
     @ (if activeTab = LayersTab
        then
          [\<lparr>caption = ''LMI Auto-Qualify Zones'', disabled = False,
            handler_of = setShowLMI (\<not> showLMI_p)\<rparr>,
           \<lparr>caption = ''Target Addresses'', disabled = False,
            handler_of = setShowTargets (\<not> showTargets_p)\<rparr>,
           \<lparr>caption = ''Walking Route'', disabled = False,
            handler_of = setShowRoute (\<not> showRoute_p)\<rparr>]
        else [])
     @ (if activeTab = RouteTab
        then
          [\<lparr>caption = ''Print Street Sheet'', disabled = (length routeTargets_p = 0),
            handler_of = onPrintStreetSheet\<rparr>,
           \<lparr>caption = ''Clear'', disabled = (length routeTargets_p = 0),
            handler_of = onClearRoute\<rparr>]
        else [])
     @ (if activeTab = ScriptsTab
        then
          map (\<lambda>objection.
                 \<lparr>caption = objection, disabled = False,
                  handler_of =
                    setExpandedScript
                      (if expandedScript = Some objection then None else Some objection)\<rparr>)
            objections
        else [])"

text \<open>A click on a disabled button calls nothing.\<close>

definition click :: "control \<Rightarrow> handler option" where
  "click c = (if disabled c then None else Some (handler_of c))"

definition invocable :: "handler \<Rightarrow> control list \<Rightarrow> bool" where
  "invocable h cs = (Some h \<in> set (map click cs))"

text \<open>\<^verbatim>\<open>Home\<close> hands its state to the panel.\<close>

definition Home_panel :: "Home_state \<Rightarrow> tab \<Rightarrow> string option \<Rightarrow> control list" where
  "Home_panel s activeTab expandedScript =
     ControlPanel (showLMI s) (showTargets s) (showRoute s) (routeTargets s)
       activeTab expandedScript"

section \<open>The data loader\<close>

text \<open>
  What \<^verbatim>\<open>fetch(url).then(r => r.json())\<close> settles to: the request is rejected (the
  network fails), the body is not JSON (an empty body is not), or the body parses.
\<close>

datatype fetched = NetworkError | ParseError | Parsed json

text \<open>\<^verbatim>\<open>.catch(() => fallback)\<close>\<close>

definition catch :: "fetched \<Rightarrow> json \<Rightarrow> json" where
  "catch f fallback =
     (case f of Parsed j \<Rightarrow> j | NetworkError \<Rightarrow> fallback | ParseError \<Rightarrow> fallback)"

datatype js_error = TypeError

text \<open>
  Reading a property of a parsed document; \<open>None\<close> is \<^verbatim>\<open>undefined\<close>. Reading from
  \<^verbatim>\<open>null\<close> throws. An object has the properties of its literal, the last one when a
  key is repeated; arrays and strings have a \<^verbatim>\<open>length\<close>; nothing else has either
  property. (The length of a string is counted in characters here and in UTF-16 units
  by the language; the two are 0 for the same strings, and the loader only asks
  whether the length is above 0.)
\<close>

fun get_features :: "json \<Rightarrow> js_error + json option" where
  "get_features JNull = Inl TypeError"
| "get_features (JObj kvs) = Inr (map_of (rev kvs) ''features'')"
| "get_features j = Inr None"

fun get_length :: "json \<Rightarrow> js_error + json option" where
  "get_length JNull = Inl TypeError"
| "get_length (JObj kvs) = Inr (map_of (rev kvs) ''length'')"
| "get_length (JArr xs) = Inr (Some (JNum (Finite (real (length xs)))))"
| "get_length (JStr str) = Inr (Some (JNum (Finite (real (length str)))))"
| "get_length j = Inr None"

text \<open>The condition of \<^verbatim>\<open>if (zoneData.features)\<close>.\<close>

fun truthy :: "json option \<Rightarrow> bool" where
  "truthy None = False"
| "truthy (Some JNull) = False"
| "truthy (Some (JBool b)) = b"
| "truthy (Some (JNum n)) = (n \<noteq> NaN \<and> n \<noteq> Finite 0)"
| "truthy (Some (JStr str)) = (str \<noteq> [])"
| "truthy (Some (JArr xs)) = True"
| "truthy (Some (JObj kvs)) = True"

text \<open>
  The conversion of a value to a string, as \<^verbatim>\<open>Array.prototype.join\<close> needs it. An
  object of a document has no method of its own: a key \<^verbatim>\<open>toString\<close> holds a value that
  cannot be called and hides the inherited method, and then the conversion throws;
  without that key the inherited method gives \<^verbatim>\<open>[object Object]\<close>. An array is joined:
  its entries are converted from left to right, \<^verbatim>\<open>null\<close> to the empty string, and put
  together with commas. The text of a number is the language's and is a parameter.
\<close>

fun ToString :: "(js_number \<Rightarrow> string) \<Rightarrow> json \<Rightarrow> js_error + string"
  and join :: "(js_number \<Rightarrow> string) \<Rightarrow> json list \<Rightarrow> js_error + string" where
  "ToString NumberToString JNull = Inr ''null''"
| "ToString NumberToString (JBool b) = Inr (if b then ''true'' else ''false'')"
| "ToString NumberToString (JNum n) = Inr (NumberToString n)"
| "ToString NumberToString (JStr str) = Inr str"
| "ToString NumberToString (JArr xs) = join NumberToString xs"
| "ToString NumberToString (JObj kvs) =
     (if ''toString'' \<in> set (map fst kvs) then Inl TypeError else Inr ''[object Object]'')"
| "join NumberToString [] = Inr []"
| "join NumberToString (x # xs) =
     (case (if x = JNull then Inr [] else ToString NumberToString x) of
        Inl e \<Rightarrow> Inl e
      | Inr next \<Rightarrow>
          (if xs = [] then Inr next
           else (case join NumberToString xs of
                   Inl e \<Rightarrow> Inl e
                 | Inr rest \<Rightarrow> Inr (next @ '','' @ rest))))"

text \<open>\<^verbatim>\<open>n > 0\<close> on numbers: a comparison with NaN is false.\<close>

fun above_0 :: "js_number \<Rightarrow> bool" where
  "above_0 NaN = False"
| "above_0 (Finite x) = (x > 0)"
| "above_0 PlusInfinity = True"
| "above_0 MinusInfinity = False"

text \<open>
  The condition \<^verbatim>\<open>targetData.length > 0\<close>: the left side is converted to a number and
  compared. \<^verbatim>\<open>undefined\<close> is NaN, \<^verbatim>\<open>null\<close> is 0, \<^verbatim>\<open>true\<close> is 1. An object or an
  array is first made a string, as above, which can throw; an object without the
  key \<^verbatim>\<open>toString\<close> becomes \<^verbatim>\<open>[object Object]\<close>, which is NaN as a number. The number a
  string stands for is the language's and is a parameter.
\<close>

fun greater_than_0 ::
  "(js_number \<Rightarrow> string) \<Rightarrow> (string \<Rightarrow> js_number) \<Rightarrow> json option \<Rightarrow> js_error + bool" where
  "greater_than_0 NumberToString StringToNumber None = Inr False"
| "greater_than_0 NumberToString StringToNumber (Some JNull) = Inr False"
| "greater_than_0 NumberToString StringToNumber (Some (JBool b)) = Inr b"
| "greater_than_0 NumberToString StringToNumber (Some (JNum n)) = Inr (above_0 n)"
| "greater_than_0 NumberToString StringToNumber (Some (JStr str)) =
     Inr (above_0 (StringToNumber str))"
| "greater_than_0 NumberToString StringToNumber (Some (JObj kvs)) =
     (if ''toString'' \<in> set (map fst kvs) then Inl TypeError else Inr False)"
| "greater_than_0 NumberToString StringToNumber (Some (JArr xs)) =
     (case join NumberToString xs of
        Inl e \<Rightarrow> Inl e
      | Inr str \<Rightarrow> Inr (above_0 (StringToNumber str)))"

text \<open>
  The three cells the loader writes. A value that reaches \<^verbatim>\<open>setZones\<close> or
  \<^verbatim>\<open>setTargets\<close> is stored as it was parsed: nothing checks it against the types.
\<close>

record loaded =
  zones_set :: json
  targets_set :: json
  loading_set :: bool

definition loaded_init :: loaded where
  "loaded_init = \<lparr>zones_set = JArr [], targets_set = JArr [], loading_set = True\<rparr>"

text \<open>
  The effect \<^verbatim>\<open>// Load zones and targets on mount\<close>: both requests fall back on
  their own, then the callback of \<^verbatim>\<open>Promise.all\<close> runs its three statements in
  order. An exception thrown there ends the callback (the promise is rejected and
  nothing handles it): the result is the error and the cells as they are then.
\<close>

definition load_data ::
  "(js_number \<Rightarrow> string) \<Rightarrow> (string \<Rightarrow> js_number) \<Rightarrow> fetched \<Rightarrow> fetched
     \<Rightarrow> js_error option \<times> loaded" where
  "load_data NumberToString StringToNumber zone_fetch target_fetch =
     (let zoneData = catch zone_fetch (JObj [(''features'', JArr [])]);
          targetData = catch target_fetch (JArr [])
      in case get_features zoneData of
           Inl e \<Rightarrow> (Some e, loaded_init)
         | Inr features \<Rightarrow>
             (let s1 = (if truthy features
                        then (case features of
                                Some v \<Rightarrow> loaded_init\<lparr>zones_set := v\<rparr>
                              | None \<Rightarrow> loaded_init)
                        else loaded_init)
              in (case get_length targetData of
                    Inl e \<Rightarrow> (Some e, s1)
                  | Inr len \<Rightarrow>
                      (case greater_than_0 NumberToString StringToNumber len of
                         Inl e \<Rightarrow> (Some e, s1)
                       | Inr positive \<Rightarrow>
                           (let s2 = (if positive then s1\<lparr>targets_set := targetData\<rparr> else s1)
                            in (None, s2\<lparr>loading_set := False\<rparr>))))))"


section \<open>Sample data\<close>

text \<open>Three targets with the scores 90, 40 and 70, and a map with no layer on it.\<close>

definition stop_a :: Target where
  "stop_a =
     \<lparr>id' = ''a'', lat = 37, lng = -77, address = ''1 Oak St'', score = 90, lmi = True,
      kwh = 1200, owner = True, sqft = 1800, year = 1990\<rparr>"

definition stop_b :: Target where
  "stop_b =
     \<lparr>id' = ''b'', lat = 38, lng = -78, address = ''2 Elm St'', score = 40, lmi = False,
      kwh = 900, owner = False, sqft = 1500, year = 1975\<rparr>"

definition stop_c :: Target where
  "stop_c =
     \<lparr>id' = ''c'', lat = 39, lng = -79, address = ''3 Ash St'', score = 70, lmi = True,
      kwh = 1000, owner = True, sqft = 2000, year = 2005\<rparr>"

definition empty_map :: MapComponent_refs where
  "empty_map = \<lparr>mapRef = Some \<lparr>layers = [], next_stamp = 0\<rparr>, routeLayerRef = None\<rparr>"


section \<open>The route list\<close>

lemma find_id_None: "(find (\<lambda>t. id' t = k) xs = None) = (k \<notin> id' ` set xs)"
  by (auto simp: find_None_iff)

lemma filter_other_ids: "k \<notin> id' ` set xs \<Longrightarrow> filter (\<lambda>t. id' t \<noteq> k) xs = xs"
  by (induction xs) auto

lemma filter_same_id: "k \<notin> id' ` set xs \<Longrightarrow> filter (\<lambda>t. id' t = k) xs = []"
  by (induction xs) auto

lemma routeTargets_click:
  "routeTargets (handleTargetClick t s) =
     (if id' t \<in> id' ` set (routeTargets s)
      then filter (\<lambda>u. id' u \<noteq> id' t) (routeTargets s)
      else routeTargets s @ [t])"
  by (simp add: handleTargetClick_def find_id_None)

lemma distinct_ids_filter: "distinct (map id' xs) \<Longrightarrow> distinct (map id' (filter P xs))"
  by (induction xs) auto

lemma distinct_ids_step:
  "distinct (map id' (routeTargets s)) \<Longrightarrow> distinct (map id' (routeTargets (Home_step e s)))"
  by (cases e)
    (auto simp: routeTargets_click distinct_ids_filter handleClearRoute_def logResult_def)

lemma distinct_ids_fold:
  "distinct (map id' (routeTargets s)) \<Longrightarrow>
   distinct (map id' (routeTargets (fold Home_step evs s)))"
  by (induction evs arbitrary: s) (simp_all add: distinct_ids_step)

text \<open>
  C3. When no entry of the route list has the identifier of the target \<open>T\<close>, a click
  on \<open>T\<close> puts \<open>T\<close> at the end of the list, where it is then the one entry with that
  identifier, and a second click on \<open>T\<close> gives back the state before the first: the
  same route list, entry for entry, and every other cell as it was.
\<close>

theorem toggle_twice_is_identity:
  assumes "id' T \<notin> id' ` set (routeTargets s)"
  shows "routeTargets (handleTargetClick T s) = routeTargets s @ [T]
       \<and> length (filter (\<lambda>t. id' t = id' T) (routeTargets (handleTargetClick T s))) = 1
       \<and> handleTargetClick T (handleTargetClick T s) = s"
proof -
  have once: "routeTargets (handleTargetClick T s) = routeTargets s @ [T]"
    using assms by (simp add: routeTargets_click)
  have none: "filter (\<lambda>t. id' t = id' T) (routeTargets s) = []"
    using assms by (rule filter_same_id)
  have restored: "filter (\<lambda>t. id' t \<noteq> id' T) (routeTargets s @ [T]) = routeTargets s"
    using assms by (simp add: filter_other_ids)
  have "handleTargetClick T (handleTargetClick T s) = s"
    using assms restored by (simp add: handleTargetClick_def find_id_None)
  with once none show ?thesis by simp
qed

theorem toggle_twice_is_identity_witness:
  "id' stop_b \<notin> id' ` set (routeTargets (Home_init\<lparr>routeTargets := [stop_a, stop_c]\<rparr>))
   \<and> routeTargets (handleTargetClick stop_b (Home_init\<lparr>routeTargets := [stop_a, stop_c]\<rparr>))
       = [stop_a, stop_c, stop_b]
   \<and> handleTargetClick stop_b
        (handleTargetClick stop_b (Home_init\<lparr>routeTargets := [stop_a, stop_c]\<rparr>))
       = Home_init\<lparr>routeTargets := [stop_a, stop_c]\<rparr>"
proof -
  have h: "id' stop_b \<notin> id' ` set (routeTargets (Home_init\<lparr>routeTargets := [stop_a, stop_c]\<rparr>))"
    by (simp add: stop_a_def stop_b_def stop_c_def)
  show ?thesis
    using h toggle_twice_is_identity [OF h] by simp
qed

text \<open>
  C4. From the initial page state, after any sequence of events (clicks on targets,
  clears, and every other event of the page) no two entries of the route list have
  the same identifier.
\<close>

theorem route_ids_distinct: "distinct (map id' (routeTargets (Home_run evs)))"
  unfolding Home_run_def by (rule distinct_ids_fold) (simp add: Home_init_def)

section \<open>The tally and the clearing of the route\<close>

text \<open>
  C5. \<open>logResult\<close> adds 1 to the doors counter for every result; it adds 1 to the
  deals counter when the result is \<open>deal\<close> and nothing otherwise, 1 to the callbacks
  counter when the result is \<open>callback\<close> and nothing otherwise; the route list stays
  as it is, and so does every cell but the tally.
\<close>

theorem logResult_counters:
  "doors (stats (logResult targetId r s)) = doors (stats s) + 1
   \<and> deals (stats (logResult targetId r s)) = deals (stats s) + (if r = deal then 1 else 0)
   \<and> callbacks (stats (logResult targetId r s))
       = callbacks (stats s) + (if r = callback then 1 else 0)
   \<and> routeTargets (logResult targetId r s) = routeTargets s
   \<and> logResult targetId r s = s\<lparr>stats := stats (logResult targetId r s)\<rparr>"
  by (simp add: logResult_def)

text \<open>
  C6. Whatever the state before, \<open>handleClearRoute\<close> leaves the route list empty and
  the route-visibility flag off, and every other cell of the page as it was.
\<close>

theorem handleClearRoute_effect:
  "routeTargets (handleClearRoute s) = []
   \<and> showRoute (handleClearRoute s) = False
   \<and> zones (handleClearRoute s) = zones s
   \<and> targets (handleClearRoute s) = targets s
   \<and> loading (handleClearRoute s) = loading s
   \<and> showLMI (handleClearRoute s) = showLMI s
   \<and> showTargets (handleClearRoute s) = showTargets s
   \<and> currentView (handleClearRoute s) = currentView s
   \<and> stats (handleClearRoute s) = stats s"
  by (simp add: handleClearRoute_def)


section \<open>The street sheet\<close>

lemma sheet_tr_fields:
  "row_number (sheet_tr (i, t)) = i + 1" "row_address (sheet_tr (i, t)) = address t"
  "row_score (sheet_tr (i, t)) = score t" "row_kwh (sheet_tr (i, t)) = kwh t"
  "row_lmi (sheet_tr (i, t)) = (if lmi t then Check else Blank)"
  "row_owner (sheet_tr (i, t)) = (if owner t then Check else Renter)"
  by (simp_all add: sheet_tr_def)

lemma map_sheet_tr_snd:
  "(\<And>i t. f (sheet_tr (i, t)) = g t) \<Longrightarrow> map f (map sheet_tr (enumerate n xs)) = map g xs"
  by (induction xs arbitrary: n) auto

lemma map_sheet_tr_number:
  "map row_number (map sheet_tr (enumerate n xs)) = [n + 1..<n + 1 + length xs]"
  by (induction xs arbitrary: n) (auto simp: sheet_tr_fields upt_rec)

text \<open>
  C9. The sheet has one row for every target of the route list when that list is not
  empty, and otherwise one for every target of the loaded collection; the rows are in
  the order of that list, numbered 1, 2, 3, ... and each shows the address, score,
  marks and usage of its target.
\<close>

theorem street_sheet_lists_route_or_all:
  "(let listed = (if routeTargets s \<noteq> [] then routeTargets s else targets s)
    in length (street_sheet s) = length listed
     \<and> map row_number (street_sheet s) = [1..<length listed + 1]
     \<and> map row_address (street_sheet s) = map address listed
     \<and> map row_score (street_sheet s) = map score listed
     \<and> map row_lmi (street_sheet s) = map (\<lambda>t. if lmi t then Check else Blank) listed
     \<and> map row_owner (street_sheet s) = map (\<lambda>t. if owner t then Check else Renter) listed
     \<and> map row_kwh (street_sheet s) = map kwh listed)"
proof -
  define listed where "listed = (if routeTargets s \<noteq> [] then routeTargets s else targets s)"
  have sheet: "street_sheet s = map sheet_tr (enumerate 0 listed)"
    by (simp add: street_sheet_def listed_def)
  have "length (street_sheet s) = length listed"
    by (simp add: sheet)
  moreover have "map row_number (street_sheet s) = [1..<length listed + 1]"
    using map_sheet_tr_number [of 0 listed] by (simp add: sheet)
  moreover have "map row_address (street_sheet s) = map address listed"
    unfolding sheet by (rule map_sheet_tr_snd) (rule sheet_tr_fields)
  moreover have "map row_score (street_sheet s) = map score listed"
    unfolding sheet by (rule map_sheet_tr_snd) (rule sheet_tr_fields)
  moreover have "map row_lmi (street_sheet s) = map (\<lambda>t. if lmi t then Check else Blank) listed"
    unfolding sheet by (rule map_sheet_tr_snd) (rule sheet_tr_fields)
  moreover have "map row_owner (street_sheet s) = map (\<lambda>t. if owner t then Check else Renter) listed"
    unfolding sheet by (rule map_sheet_tr_snd) (rule sheet_tr_fields)
  moreover have "map row_kwh (street_sheet s) = map kwh listed"
    unfolding sheet by (rule map_sheet_tr_snd) (rule sheet_tr_fields)
  ultimately show ?thesis
    unfolding Let_def listed_def [symmetric] by blast
qed

section \<open>The order of the route\<close>

lemma insert_by_score_insort:
  "insert_by (\<lambda>a b. score b - score a) x xs = insort_key (\<lambda>t. - score t) x xs"
  by (induction xs) auto

lemma sorted_by_score_sort_key: "sorted_by_score ts = sort_key (\<lambda>t. - score t) ts"
  by (induction ts) (simp_all add: sorted_by_score_def js_sort_def insert_by_score_insort)

lemma mset_sorted_by_score: "mset (sorted_by_score ts) = mset ts"
  by (simp add: sorted_by_score_sort_key)

lemma descending_sorted_by_score:
  "sorted_wrt (\<lambda>a b. score a \<ge> score b) (sorted_by_score ts)"
proof -
  have "sorted (map (\<lambda>t. - score t) (sorted_by_score ts))"
    by (simp add: sorted_by_score_sort_key)
  then show ?thesis
    by (simp add: sorted_map)
qed

lemma map_insort_key: "map f (insort_key f x xs) = insort (f x) (map f xs)"
  by (induction xs) auto

lemma map_sort_key: "map f (sort_key f xs) = sort (map f xs)"
  by (induction xs) (simp_all add: map_insort_key)

lemma scores_sorted_by_score:
  "map score (sorted_by_score ts) = map uminus (sort (map uminus (map score ts)))"
proof -
  have "map (\<lambda>t. - score t) (sorted_by_score ts) = sort (map (\<lambda>t. - score t) ts)"
    by (simp add: sorted_by_score_sort_key map_sort_key)
  then have "map uminus (map (\<lambda>t. - score t) (sorted_by_score ts))
           = map uminus (sort (map (\<lambda>t. - score t) ts))"
    by simp
  then show ?thesis
    by (simp add: comp_def)
qed

lemma sort_mset_cong: "mset xs = mset ys \<Longrightarrow> sort xs = sort ys"
  by (metis sorted_list_of_multiset_mset)

lemma scores_sorted_by_score_perm:
  assumes "mset (map score ts) = mset (map score ts')"
  shows "map score (sorted_by_score ts) = map score (sorted_by_score ts')"
proof -
  have "mset (map uminus (map score ts)) = mset (map uminus (map score ts'))"
    using assms by (simp only: mset_map)
  then have "sort (map uminus (map score ts)) = sort (map uminus (map score ts'))"
    by (rule sort_mset_cong)
  then show ?thesis
    by (simp only: scores_sorted_by_score)
qed

section \<open>The route effect\<close>

lemma shapes_fold_add_route_number:
  "map snd (layers (fold add_route_number ps m)) =
     map snd (layers m) @ map (\<lambda>p. RouteNumber (lat (snd p), lng (snd p)) (fst p + 1)) ps"
  by (induction ps arbitrary: m) (auto simp: add_route_number_def addTo_def)

lemma set_layers_removeLayer: "set (layers (removeLayer m l)) \<subseteq> set (layers m)"
  by (auto simp: removeLayer_def)

lemma route_effect_no_map: "mapRef r = None \<Longrightarrow> route_effect sr ts r = r"
  by (simp add: route_effect_def)

lemma route_effect_not_drawing:
  assumes "mapRef r = Some m" "\<not> (sr \<and> length ts > 1)"
  shows "route_effect sr ts r =
           \<lparr>mapRef = Some (case routeLayerRef r of Some l \<Rightarrow> removeLayer m l | None \<Rightarrow> m),
            routeLayerRef = None\<rparr>"
  using assms by (auto simp: route_effect_def Let_def)

lemma route_effect_drawing:
  assumes "mapRef r = Some m" "sr" "length ts > 1"
  shows "route_effect sr ts r =
           \<lparr>mapRef = Some (fold add_route_number (enumerate 0 (sorted_by_score ts))
                      (snd (addTo (Polyline (map (\<lambda>t. (lat t, lng t)) (sorted_by_score ts)))
                         (case routeLayerRef r of Some l \<Rightarrow> removeLayer m l | None \<Rightarrow> m)))),
            routeLayerRef = Some (fst (addTo (Polyline (map (\<lambda>t. (lat t, lng t)) (sorted_by_score ts)))
                         (case routeLayerRef r of Some l \<Rightarrow> removeLayer m l | None \<Rightarrow> m)))\<rparr>"
  using assms by (simp add: route_effect_def Let_def)

lemma route_line_drawing:
  assumes "mapRef r = Some m" "sr" "length ts > 1"
  shows "route_line (route_effect sr ts r) = Some (map (\<lambda>t. (lat t, lng t)) (sorted_by_score ts))"
  by (simp add: route_effect_drawing [OF assms] route_line_def addTo_def)

lemma shapes_drawing:
  assumes "mapRef r = Some m" "sr" "length ts > 1"
  shows "\<exists>older. map snd (layers_on (route_effect sr ts r)) =
           older @ Polyline (map (\<lambda>t. (lat t, lng t)) (sorted_by_score ts))
             # map (\<lambda>p. RouteNumber (lat (snd p), lng (snd p)) (fst p + 1))
                 (enumerate 0 (sorted_by_score ts))"
  by (simp add: route_effect_drawing [OF assms] layers_on_def shapes_fold_add_route_number addTo_def)

lemma layers_not_drawing:
  assumes "\<not> (sr \<and> length ts > 1)"
  shows "set (layers_on (route_effect sr ts r)) \<subseteq> set (layers_on r)"
proof (cases "mapRef r")
  case None
  then show ?thesis by (simp add: route_effect_no_map)
next
  case (Some m)
  show ?thesis
    using set_layers_removeLayer [of m]
    by (simp add: route_effect_not_drawing [OF Some assms] layers_on_def Some split: option.split)
qed

lemma drawn_by_not_drawing:
  assumes "\<not> (sr \<and> length ts > 1)"
  shows "drawn_by r (route_effect sr ts r) = []"
  using layers_not_drawing [OF assms, of r] by (auto simp: drawn_by_def filter_empty_conv)


lemma Home_route_effect_ignores_route:
  "Home_route_effect (s\<lparr>routeTargets := rt\<rparr>) r = Home_route_effect s r"
  by (simp add: Home_route_effect_def)

lemma sheet_scores:
  "map row_score (street_sheet s) =
     map score (if routeTargets s \<noteq> [] then routeTargets s else targets s)"
  unfolding street_sheet_def
  by (simp only: length_greater_0_conv) (rule map_sheet_tr_snd, rule sheet_tr_fields)

text \<open>
  C1, as the code has it. When the route is drawn, the line runs through the targets
  of the whole collection sorted by descending score, and the numbered markers follow
  the same order, counting from 1. The sorted list is a rearrangement of the
  collection with no score before a larger one; its scores depend on the scores in
  the collection only and not on the order of the array; scores 90, 40, 70 are drawn
  as 90, 70, 40; and the route list, so the order of the clicks, has no part in it.
  The street sheet is not sorted: the scores of its rows are those of the listed
  targets in the order of the list.
\<close>

theorem route_line_descending_sheet_as_listed:
  "(mapRef r \<noteq> None \<and> showRoute s \<and> 2 \<le> length (targets s) \<longrightarrow>
      route_line (Home_route_effect s r)
        = Some (map (\<lambda>t. (lat t, lng t)) (sorted_by_score (targets s)))
      \<and> (\<exists>older. map snd (layers_on (Home_route_effect s r))
            = older @ Polyline (map (\<lambda>t. (lat t, lng t)) (sorted_by_score (targets s)))
                # map (\<lambda>p. RouteNumber (lat (snd p), lng (snd p)) (fst p + 1))
                    (enumerate 0 (sorted_by_score (targets s)))))
   \<and> sorted_wrt (\<lambda>a b. score a \<ge> score b) (sorted_by_score (targets s))
   \<and> mset (sorted_by_score (targets s)) = mset (targets s)
   \<and> (mset (map score ts) = mset (map score (targets s)) \<longrightarrow>
        map score (sorted_by_score ts) = map score (sorted_by_score (targets s)))
   \<and> (map score (targets s) = [90, 40, 70] \<longrightarrow>
        map score (sorted_by_score (targets s)) = [90, 70, 40])
   \<and> Home_route_effect (s\<lparr>routeTargets := rt\<rparr>) r = Home_route_effect s r
   \<and> map row_score (street_sheet s)
       = map score (if routeTargets s \<noteq> [] then routeTargets s else targets s)"
proof -
  have line: "route_line (Home_route_effect s r)
                = Some (map (\<lambda>t. (lat t, lng t)) (sorted_by_score (targets s)))
              \<and> (\<exists>older. map snd (layers_on (Home_route_effect s r))
                    = older @ Polyline (map (\<lambda>t. (lat t, lng t)) (sorted_by_score (targets s)))
                        # map (\<lambda>p. RouteNumber (lat (snd p), lng (snd p)) (fst p + 1))
                            (enumerate 0 (sorted_by_score (targets s))))"
    if "mapRef r \<noteq> None" "showRoute s" "2 \<le> length (targets s)"
  proof -
    from that(1) obtain m where m: "mapRef r = Some m" by blast
    from that(3) have len: "length (targets s) > 1" by simp
    show ?thesis
      unfolding Home_route_effect_def
      using route_line_drawing [OF m that(2) len] shapes_drawing [OF m that(2) len] by blast
  qed
  have example: "map score (sorted_by_score (targets s)) = [90, 70, 40]"
    if "map score (targets s) = [90, 40, 70]"
    using that by (simp add: scores_sorted_by_score)
  have perm: "map score (sorted_by_score ts) = map score (sorted_by_score (targets s))"
    if "mset (map score ts) = mset (map score (targets s))"
    using that by (rule scores_sorted_by_score_perm)
  show ?thesis
    using line example perm descending_sorted_by_score [of "targets s"]
      mset_sorted_by_score [of "targets s"] Home_route_effect_ignores_route [where s = s and rt = rt and r = r]
      sheet_scores [of s]
    by blast
qed

theorem route_line_descending_sheet_as_listed_witness:
  "mapRef empty_map \<noteq> None
   \<and> showRoute (Home_init\<lparr>targets := [stop_a, stop_b, stop_c], showRoute := True,
                           routeTargets := [stop_b, stop_a]\<rparr>)
   \<and> map score [stop_a, stop_b, stop_c] = [90, 40, 70]
   \<and> mset (map score [stop_c, stop_a, stop_b]) = mset (map score [stop_a, stop_b, stop_c])
   \<and> route_line
        (Home_route_effect
           (Home_init\<lparr>targets := [stop_a, stop_b, stop_c], showRoute := True,
                       routeTargets := [stop_b, stop_a]\<rparr>) empty_map)
       = Some (map (\<lambda>t. (lat t, lng t)) (sorted_by_score [stop_a, stop_b, stop_c]))
   \<and> map score (sorted_by_score [stop_a, stop_b, stop_c]) = [90, 70, 40]
   \<and> map score (sorted_by_score [stop_c, stop_a, stop_b]) = [90, 70, 40]
   \<and> map row_score
        (street_sheet
           (Home_init\<lparr>targets := [stop_a, stop_b, stop_c], showRoute := True,
                       routeTargets := [stop_b, stop_a]\<rparr>))
       = [40, 90]"
proof -
  have a: "mapRef empty_map \<noteq> None"
    by (simp add: empty_map_def)
  have b: "map score [stop_a, stop_b, stop_c] = [90, 40, 70]"
    by (simp add: stop_a_def stop_b_def stop_c_def)
  have c: "mset (map score [stop_c, stop_a, stop_b]) = mset (map score [stop_a, stop_b, stop_c])"
    by (simp add: stop_a_def stop_b_def stop_c_def)
  have d: "map score [stop_b, stop_a] = [40, 90]"
    by (simp add: stop_a_def stop_b_def)
  show ?thesis
    using a b c d
      route_line_descending_sheet_as_listed
        [where r = empty_map
           and s = "Home_init\<lparr>targets := [stop_a, stop_b, stop_c], showRoute := True,
                                routeTargets := [stop_b, stop_a]\<rparr>"
           and ts = "[stop_c, stop_a, stop_b]" and rt = "[]"]
    by simp
qed

text \<open>
  A collection with the scores 90, 40, 70 and an empty route list is printed with the
  scores 90, 40, 70, and so not in descending order.
\<close>

theorem sheet_not_sorted_counterexample:
  "map score (targets (Home_init\<lparr>targets := [stop_a, stop_b, stop_c]\<rparr>)) = [90, 40, 70]
   \<and> map row_score (street_sheet (Home_init\<lparr>targets := [stop_a, stop_b, stop_c]\<rparr>)) = [90, 40, 70]
   \<and> map row_score (street_sheet (Home_init\<lparr>targets := [stop_a, stop_b, stop_c]\<rparr>)) \<noteq> [90, 70, 40]"
  by (simp add: street_sheet_def sheet_tr_def Home_init_def stop_a_def stop_b_def stop_c_def)

text \<open>
  C8. A run of the route effect puts a new layer on the map only when route
  visibility is on and the target collection has at least two targets. With no
  target loaded, switching route visibility on draws nothing and leaves no line. The
  route list is not consulted. (The effect is a total function: none of its steps
  can throw.)
\<close>

theorem route_drawn_only_with_two_targets:
  "(drawn_by r (Home_route_effect s r) \<noteq> [] \<longrightarrow> showRoute s \<and> 2 \<le> length (targets s))
   \<and> drawn_by r (Home_route_effect (Home_step (SetShowRoute True) (s\<lparr>targets := []\<rparr>)) r) = []
   \<and> (mapRef r \<noteq> None \<longrightarrow>
        route_line (Home_route_effect (Home_step (SetShowRoute True) (s\<lparr>targets := []\<rparr>)) r) = None)
   \<and> Home_route_effect (s\<lparr>routeTargets := rt\<rparr>) r = Home_route_effect s r"
proof -
  have only: "showRoute s \<and> 2 \<le> length (targets s)"
    if "drawn_by r (Home_route_effect s r) \<noteq> []"
  proof (rule ccontr)
    assume "\<not> (showRoute s \<and> 2 \<le> length (targets s))"
    then have "\<not> (showRoute s \<and> length (targets s) > 1)" by auto
    then have "drawn_by r (Home_route_effect s r) = []"
      unfolding Home_route_effect_def by (rule drawn_by_not_drawing)
    with that show False by simp
  qed
  have none: "drawn_by r (Home_route_effect (Home_step (SetShowRoute True) (s\<lparr>targets := []\<rparr>)) r) = []"
    unfolding Home_route_effect_def by (rule drawn_by_not_drawing) simp
  have no_line: "route_line (Home_route_effect (Home_step (SetShowRoute True) (s\<lparr>targets := []\<rparr>)) r) = None"
    if "mapRef r \<noteq> None"
  proof -
    from that obtain m where m: "mapRef r = Some m" by blast
    show ?thesis
      unfolding Home_route_effect_def
      by (simp add: route_effect_not_drawing [OF m] route_line_def)
  qed
  show ?thesis
    using only none no_line Home_route_effect_ignores_route [where s = s and rt = rt and r = r] by blast
qed

theorem route_drawn_only_with_two_targets_witness:
  "drawn_by empty_map
     (Home_route_effect (Home_init\<lparr>targets := [stop_a, stop_b], showRoute := True\<rparr>) empty_map)
     \<noteq> []
   \<and> mapRef empty_map \<noteq> None
   \<and> showRoute (Home_init\<lparr>targets := [stop_a, stop_b], showRoute := True\<rparr>)
   \<and> 2 \<le> length (targets (Home_init\<lparr>targets := [stop_a, stop_b], showRoute := True\<rparr>))
   \<and> route_line
        (Home_route_effect
           (Home_step (SetShowRoute True)
              (Home_init\<lparr>targets := [stop_a, stop_b], showRoute := True, targets := []\<rparr>))
           empty_map) = None"
proof -
  have a: "drawn_by empty_map
     (Home_route_effect (Home_init\<lparr>targets := [stop_a, stop_b], showRoute := True\<rparr>) empty_map)
     \<noteq> []"
    by (simp add: drawn_by_def layers_on_def Home_route_effect_def route_effect_def
        empty_map_def addTo_def add_route_number_def sorted_by_score_def js_sort_def
        stop_a_def stop_b_def Let_def)
  have b: "mapRef empty_map \<noteq> None"
    by (simp add: empty_map_def)
  show ?thesis
    using a b
      route_drawn_only_with_two_targets
        [where r = empty_map
           and s = "Home_init\<lparr>targets := [stop_a, stop_b], showRoute := True\<rparr>"
           and rt = "[]"]
    by simp
qed

text \<open>
  C2. The rebuild removes the line held in \<open>routeLayerRef\<close> and nothing else. On an
  empty map with two targets: the route is drawn (a line and two numbered markers);
  after route visibility is switched off the two numbered markers are still on the
  map; and a redraw for another collection adds a line and two more markers to them.
\<close>

theorem route_numbers_stay_after_rebuild:
  "route_artifacts (route_effect True [stop_a, stop_b] empty_map)
     = [(0, Polyline [(37, -77), (38, -78)]),
        (1, RouteNumber (37, -77) 1), (2, RouteNumber (38, -78) 2)]
   \<and> route_artifacts
       (route_effect False [stop_a, stop_b] (route_effect True [stop_a, stop_b] empty_map))
     = [(1, RouteNumber (37, -77) 1), (2, RouteNumber (38, -78) 2)]
   \<and> route_artifacts
       (route_effect True [stop_b, stop_c]
          (route_effect False [stop_a, stop_b] (route_effect True [stop_a, stop_b] empty_map)))
     = [(1, RouteNumber (37, -77) 1), (2, RouteNumber (38, -78) 2),
        (3, Polyline [(39, -79), (38, -78)]),
        (4, RouteNumber (39, -79) 1), (5, RouteNumber (38, -78) 2)]"
  by (simp add: route_artifacts_def layers_on_def route_effect_def removeLayer_def
      empty_map_def addTo_def add_route_number_def sorted_by_score_def js_sort_def
      stop_a_def stop_b_def stop_c_def Let_def)


section \<open>The buttons of the route tab\<close>

lemma handlers_of_panel:
  "map handler_of (ControlPanel a b c rt tab ex) =
     [setActiveTab LayersTab, setActiveTab RouteTab, setActiveTab ScriptsTab]
     @ (if tab = LayersTab then [setShowLMI (\<not> a), setShowTargets (\<not> b), setShowRoute (\<not> c)] else [])
     @ (if tab = RouteTab then [onPrintStreetSheet, onClearRoute] else [])
     @ (if tab = ScriptsTab
        then map (\<lambda>objection. setExpandedScript (if ex = Some objection then None else Some objection))
               objections
        else [])"
  by (simp add: ControlPanel_def comp_def)

lemma route_handlers_rendered:
  "(onPrintStreetSheet \<in> handler_of ` set (ControlPanel a b c rt tab ex)) = (tab = RouteTab)"
  "(onClearRoute \<in> handler_of ` set (ControlPanel a b c rt tab ex)) = (tab = RouteTab)"
  unfolding set_map [symmetric] handlers_of_panel by auto

lemma route_buttons_disabled:
  assumes "c \<in> set (ControlPanel a b sr rt tab ex)"
    and "handler_of c = onPrintStreetSheet \<or> handler_of c = onClearRoute"
  shows "disabled c = (rt = [])"
  using assms by (auto simp: ControlPanel_def split: if_splits)

lemma invocable_iff:
  "invocable h cs = (\<exists>c \<in> set cs. \<not> disabled c \<and> handler_of c = h)"
  by (auto simp: invocable_def click_def image_iff split: if_splits)

lemma invocable_print:
  "invocable onPrintStreetSheet (ControlPanel a b sr rt tab ex) = (tab = RouteTab \<and> rt \<noteq> [])"
  unfolding invocable_iff by (cases tab) (auto simp: ControlPanel_def)

lemma invocable_clear:
  "invocable onClearRoute (ControlPanel a b sr rt tab ex) = (tab = RouteTab \<and> rt \<noteq> [])"
  unfolding invocable_iff by (cases tab) (auto simp: ControlPanel_def)

text \<open>
  C10. In every state of the page and of the panel, a control of the panel that calls
  the print handler or the clear handler is disabled exactly when the route list is
  empty; the two are rendered exactly on the route tab; and each of the two handlers
  can be called from the panel exactly when the route tab is open and the route list
  is not empty. So the panel never prints with an empty route list.
\<close>

theorem print_and_clear_need_a_route:
  "(\<forall>c \<in> set (Home_panel s activeTab expandedScript).
      handler_of c = onPrintStreetSheet \<or> handler_of c = onClearRoute \<longrightarrow>
      disabled c = (routeTargets s = []))
   \<and> (onPrintStreetSheet \<in> handler_of ` set (Home_panel s activeTab expandedScript)
        \<longleftrightarrow> activeTab = RouteTab)
   \<and> (onClearRoute \<in> handler_of ` set (Home_panel s activeTab expandedScript)
        \<longleftrightarrow> activeTab = RouteTab)
   \<and> (invocable onPrintStreetSheet (Home_panel s activeTab expandedScript)
        \<longleftrightarrow> activeTab = RouteTab \<and> routeTargets s \<noteq> [])
   \<and> (invocable onClearRoute (Home_panel s activeTab expandedScript)
        \<longleftrightarrow> activeTab = RouteTab \<and> routeTargets s \<noteq> [])"
proof -
  have "\<forall>c \<in> set (Home_panel s activeTab expandedScript).
      handler_of c = onPrintStreetSheet \<or> handler_of c = onClearRoute \<longrightarrow>
      disabled c = (routeTargets s = [])"
    unfolding Home_panel_def using route_buttons_disabled by blast
  moreover have "onPrintStreetSheet \<in> handler_of ` set (Home_panel s activeTab expandedScript)
        \<longleftrightarrow> activeTab = RouteTab"
    unfolding Home_panel_def by (rule route_handlers_rendered)
  moreover have "onClearRoute \<in> handler_of ` set (Home_panel s activeTab expandedScript)
        \<longleftrightarrow> activeTab = RouteTab"
    unfolding Home_panel_def by (rule route_handlers_rendered)
  ultimately show ?thesis
    by (simp add: Home_panel_def invocable_print invocable_clear)
qed

theorem print_and_clear_need_a_route_witness:
  "\<lparr>caption = ''Print Street Sheet'', disabled = False, handler_of = onPrintStreetSheet\<rparr>
     \<in> set (Home_panel (Home_init\<lparr>routeTargets := [stop_a]\<rparr>) RouteTab None)
   \<and> routeTargets (Home_init\<lparr>routeTargets := [stop_a]\<rparr>) \<noteq> []
   \<and> invocable onPrintStreetSheet (Home_panel (Home_init\<lparr>routeTargets := [stop_a]\<rparr>) RouteTab None)
   \<and> \<lparr>caption = ''Print Street Sheet'', disabled = True, handler_of = onPrintStreetSheet\<rparr>
     \<in> set (Home_panel Home_init RouteTab None)
   \<and> routeTargets Home_init = []
   \<and> \<not> invocable onPrintStreetSheet (Home_panel Home_init RouteTab None)"
proof -
  have a: "\<lparr>caption = ''Print Street Sheet'', disabled = False, handler_of = onPrintStreetSheet\<rparr>
     \<in> set (Home_panel (Home_init\<lparr>routeTargets := [stop_a]\<rparr>) RouteTab None)"
    by (simp add: Home_panel_def ControlPanel_def)
  have b: "\<lparr>caption = ''Print Street Sheet'', disabled = True, handler_of = onPrintStreetSheet\<rparr>
     \<in> set (Home_panel Home_init RouteTab None)"
    by (simp add: Home_panel_def ControlPanel_def Home_init_def)
  have c: "routeTargets Home_init = []"
    by (simp add: Home_init_def)
  show ?thesis
    using a b c
      print_and_clear_need_a_route
        [where s = "Home_init\<lparr>routeTargets := [stop_a]\<rparr>" and activeTab = RouteTab
           and expandedScript = None]
      print_and_clear_need_a_route
        [where s = Home_init and activeTab = RouteTab and expandedScript = None]
    by simp
qed

section \<open>Loading the two documents\<close>

lemma catch_failed:
  "f = NetworkError \<or> f = ParseError \<Longrightarrow> catch f fallback = fallback"
  by (auto simp: catch_def)








text \<open>
  Where the callback throws: a document that parses to \<^verbatim>\<open>null\<close> (the zone document
  before anything is stored, the target document after the zones are), and a target
  document whose \<^verbatim>\<open>length\<close> cannot be made a number.
\<close>

lemma load_data_null_zones:
  "load_data nts stn (Parsed JNull) tf = (Some TypeError, loaded_init)"
  by (simp add: load_data_def catch_def)

lemma load_data_null_targets:
  "load_data nts stn NetworkError (Parsed JNull) = (Some TypeError, loaded_init)"
  by (simp add: load_data_def catch_def loaded_init_def)

lemma load_data_length_not_a_primitive:
  "load_data nts stn NetworkError
     (Parsed (JObj [(''length'', JObj [(''toString'', JNum (Finite 0))])]))
     = (Some TypeError, loaded_init)"
  by (simp add: load_data_def catch_def loaded_init_def)

end
